theory Spec2Isabelle
  imports Complex_Main
begin

section \<open>V-Math: vectors and quaternions\<close>

text \<open>
  The library has two classes, \<^verbatim>\<open>Vector\<close> (fields \<^verbatim>\<open>x, y, z\<close>) and
  \<^verbatim>\<open>Quaternion\<close> (fields \<^verbatim>\<open>a, i, j, k\<close>), whose methods return new objects.
  A JavaScript \<^verbatim>\<open>number\<close> is modelled as a \<^typ>\<open>real\<close>: the numbers of the model are
  the finite ones, arithmetic on them is exact, and there is no rounding, overflow,
  infinity or NaN. The theorems below are therefore those whose statements do not
  depend on how a double rounds or overflows: they say which operations the code
  applies, in which order, and when it throws. \<^verbatim>\<open>Math.sqrt\<close>, \<^verbatim>\<open>Math.sin\<close>,
  \<^verbatim>\<open>Math.acos\<close>, \<^verbatim>\<open>Math.min\<close>, \<^verbatim>\<open>Math.max\<close> and \<^verbatim>\<open>Math.PI\<close> are \<^const>\<open>sqrt\<close>,
  \<^const>\<open>sin\<close>, \<^const>\<open>arccos\<close>, \<^const>\<open>min\<close>, \<^const>\<open>max\<close> and \<^const>\<open>pi\<close>; \<^verbatim>\<open>Math.cos\<close> is
  \<open>Math_cos\<close> below. A \<^verbatim>\<open>throw\<close> is the left injection of a sum type.

  The fields are the selectors \<open>vx, vy, vz\<close> and \<open>qa, qi, qj, qk\<close>; a method
  \<^verbatim>\<open>m\<close> of class \<^verbatim>\<open>C\<close> is the function \<open>C_m\<close>, with \<^verbatim>\<open>this\<close> as its first argument.
\<close>

datatype Vector = Vector (vx: real) (vy: real) (vz: real)

datatype Quaternion = Quaternion (qa: real) (qi: real) (qj: real) (qk: real)

datatype error = Missing_y | Missing_ijk | Divide_by_zero

subsection \<open>Constructors\<close>

text \<open>
  \<^verbatim>\<open>new Vector(x, y, z)\<close> and \<^verbatim>\<open>new Vector({x, y, z})\<close> both store \<^verbatim>\<open>z || 0\<close> in the third
  field; every call in the library passes all three components, so the branches that
  throw for a missing argument are never taken by the methods below.
\<close>

definition new_Vector :: "real \<Rightarrow> real \<Rightarrow> real \<Rightarrow> Vector" where
  "new_Vector x y z = Vector x y (if z \<noteq> 0 then z else 0)"

definition new_Quaternion :: "real \<Rightarrow> real \<Rightarrow> real \<Rightarrow> real \<Rightarrow> Quaternion" where
  "new_Quaternion a i j k = Quaternion a i j k"

subsection \<open>Quaternion arithmetic\<close>

definition Quaternion_conjugate :: "Quaternion \<Rightarrow> Quaternion" where
  "Quaternion_conjugate q = new_Quaternion (qa q) (- qi q) (- qj q) (- qk q)"

definition Quaternion_div :: "Quaternion \<Rightarrow> real \<Rightarrow> error + Quaternion" where
  "Quaternion_div q a =
     (if a = 0 then Inl Divide_by_zero
      else Inr (new_Quaternion (qa q / a) (qi q / a) (qj q / a) (qk q / a)))"

definition Quaternion_mag :: "Quaternion \<Rightarrow> real" where
  "Quaternion_mag q = sqrt (qa q * qa q + qi q * qi q + qj q * qj q + qk q * qk q)"

definition Quaternion_normalize :: "Quaternion \<Rightarrow> error + Quaternion" where
  "Quaternion_normalize q = Quaternion_div q (Quaternion_mag q)"

definition Quaternion_quaternion_multiply :: "Quaternion \<Rightarrow> Quaternion \<Rightarrow> Quaternion" where
  "Quaternion_quaternion_multiply p q =
     new_Quaternion
       (qa p * qa q - qi p * qi q - qj p * qj q - qk p * qk q)
       (qa p * qi q + qi p * qa q + qj p * qk q - qk p * qj q)
       (qa p * qj q - qi p * qk q + qj p * qa q + qk p * qi q)
       (qa p * qk q + qi p * qj q - qj p * qi q + qk p * qa q)"

definition Quaternion_q_mul :: "Quaternion \<Rightarrow> Quaternion \<Rightarrow> Quaternion" where
  "Quaternion_q_mul p q = Quaternion_quaternion_multiply p q"

subsection \<open>Vector arithmetic\<close>

definition Vector_add :: "Vector \<Rightarrow> Vector \<Rightarrow> Vector" where
  "Vector_add u v = new_Vector (vx u + vx v) (vy u + vy v) (vz u + vz v)"

definition Vector_neg :: "Vector \<Rightarrow> Vector" where
  "Vector_neg u = new_Vector (- vx u) (- vy u) (- vz u)"

definition Vector_sub :: "Vector \<Rightarrow> Vector \<Rightarrow> Vector" where
  "Vector_sub u v = Vector_add u (Vector_neg v)"

text \<open>\<^verbatim>\<open>mul\<close> takes a number or a vector; a number is first spread over three components.\<close>

datatype number_or_Vector = Num real | Vec Vector

definition Vector_mul :: "Vector \<Rightarrow> number_or_Vector \<Rightarrow> Vector" where
  "Vector_mul u a =
     (let a' = (case a of Num n \<Rightarrow> new_Vector n n n | Vec w \<Rightarrow> w)
      in new_Vector (vx u * vx a') (vy u * vy a') (vz u * vz a'))"

definition Vector_mag :: "Vector \<Rightarrow> real" where
  "Vector_mag u = sqrt (vx u * vx u + vy u * vy u + vz u * vz u)"

definition Vector_norm :: "Vector \<Rightarrow> Vector" where
  "Vector_norm u =
     (let mag = Vector_mag u
      in if mag = 0 then new_Vector 0 0 0
         else new_Vector (vx u / mag) (vy u / mag) (vz u / mag))"

definition Vector_cross :: "Vector \<Rightarrow> Vector \<Rightarrow> Vector" where
  "Vector_cross u v =
     new_Vector (vy u * vz v - vz u * vy v)
                (- (vx u * vz v - vz u * vx v))
                (vx u * vy v - vy u * vx v)"

definition Vector_dot :: "Vector \<Rightarrow> Vector \<Rightarrow> real" where
  "Vector_dot u v = vx u * vx v + vy u * vy v + vz u * vz v"

subsection \<open>Rotation\<close>

definition Vector_quaternion_rotate :: "Vector \<Rightarrow> Quaternion \<Rightarrow> error + Vector" where
  "Vector_quaternion_rotate u q =
     (case Quaternion_normalize q of
        Inl e \<Rightarrow> Inl e
      | Inr q' \<Rightarrow>
          (let p = new_Quaternion 0 (vx u) (vy u) (vz u);
               c = Quaternion_conjugate q';
               p' = Quaternion_q_mul (Quaternion_q_mul q' p) c
           in Inr (new_Vector (qi p') (qj p') (qk p'))))"

definition Vector_q_rotate :: "Vector \<Rightarrow> Quaternion \<Rightarrow> error + Vector" where
  "Vector_q_rotate u q = Vector_quaternion_rotate u q"

text \<open>
  \<^verbatim>\<open>Math.cos\<close> is a function of the host, applied to doubles. No double is an odd
  multiple of \<open>pi / 2\<close>, and \<^verbatim>\<open>Math.cos\<close> returns 0 for no double: for the double
  nearest to \<open>pi / 2\<close>, \<^verbatim>\<open>Math.cos(Math.PI / 2)\<close>, it returns
  \<^verbatim>\<open>6.123233995736766e-17\<close>. The model is the real cosine wherever that is not 0. At
  the zeros of the real cosine, which are not doubles, it takes the value above, so that
  it is 0 nowhere, as the host's function is; only that this value is not 0 is used.
\<close>

definition Math_cos :: "real \<Rightarrow> real" where
  "Math_cos x = (if cos x = 0 then 6123233995736766 / 10 ^ 32 else cos x)"

definition from_axis_rotation :: "Vector \<Rightarrow> real \<Rightarrow> error + Quaternion" where
  "from_axis_rotation axis angle =
     (let a = Math_cos (angle / 2);
          s = sin (angle / 2);
          axis' = Vector_norm axis;
          i = vx axis' * s;
          j = vy axis' * s;
          k = vz axis' * s
      in Quaternion_normalize (new_Quaternion a i j k))"

definition Vector_rotate_axis :: "Vector \<Rightarrow> Vector \<Rightarrow> real \<Rightarrow> error + Vector" where
  "Vector_rotate_axis u axis angle =
     (case from_axis_rotation axis angle of
        Inl e \<Rightarrow> Inl e
      | Inr q \<Rightarrow> Vector_q_rotate u q)"

subsection \<open>Angles and projections\<close>

definition Vector_angle_between :: "Vector \<Rightarrow> Vector \<Rightarrow> real" where
  "Vector_angle_between u v =
     (let denominator = Vector_mag u * Vector_mag v
      in if denominator = 0 then 0
         else arccos (min (max (Vector_dot u v / denominator) (- 1)) 1))"

definition Vector_project :: "Vector \<Rightarrow> Vector \<Rightarrow> Vector" where
  "Vector_project u v =
     (let theta = Vector_angle_between u v
      in Vector_mul (Vector_norm v) (Num (cos theta * Vector_mag u)))"

definition Vector_planar_project :: "Vector \<Rightarrow> Vector \<Rightarrow> Vector \<Rightarrow> Vector" where
  "Vector_planar_project u origin normal =
     (let diff = Vector_sub origin u
      in Vector_add u (Vector_project diff normal))"

definition Vector_project_2d :: "Vector \<Rightarrow> Vector \<Rightarrow> Vector \<Rightarrow> Vector \<Rightarrow> error + Vector" where
  "Vector_project_2d u origin normal y_axis =
     (let proj = Vector_sub (Vector_planar_project u origin normal) origin;
          theta = Vector_angle_between proj y_axis
      in case Vector_rotate_axis y_axis normal (pi / 2) of
           Inl e \<Rightarrow> Inl e
         | Inr r \<Rightarrow>
             (let theta2 = Vector_angle_between proj r;
                  mag = Vector_mag proj
              in Inr (new_Vector (cos theta2 * mag) (cos theta * mag) 0)))"

subsection \<open>The operations as the specification writes them\<close>

text \<open>
  The next three definitions are not functions of the library; the theorems compare
  the library's functions with them. \<open>spec_hamilton_product\<close> is the product that
  section 4.2 of the specification writes out, \<open>spec_conjugate\<close> keeps \<open>a\<close> and negates
  \<open>i\<close>, \<open>j\<close> and \<open>k\<close>, and \<open>spec_sandwich q v\<close> is the product
  \<open>(q * p) * conjugate q\<close> for the quaternion \<open>p = (0, x, y, z)\<close> of the vector \<open>v\<close>,
  with \<open>q\<close> multiplied on the left first and its conjugate on the right afterwards.
\<close>

fun spec_hamilton_product :: "Quaternion \<Rightarrow> Quaternion \<Rightarrow> Quaternion" where
  "spec_hamilton_product (Quaternion a1 i1 j1 k1) (Quaternion a2 i2 j2 k2) =
     Quaternion (a1 * a2 - i1 * i2 - j1 * j2 - k1 * k2)
                (a1 * i2 + i1 * a2 + j1 * k2 - k1 * j2)
                (a1 * j2 - i1 * k2 + j1 * a2 + k1 * i2)
                (a1 * k2 + i1 * j2 - j1 * i2 + k1 * a2)"

fun spec_conjugate :: "Quaternion \<Rightarrow> Quaternion" where
  "spec_conjugate (Quaternion a i j k) = Quaternion a (- i) (- j) (- k)"

definition spec_sandwich :: "Quaternion \<Rightarrow> Vector \<Rightarrow> Quaternion" where
  "spec_sandwich q v =
     spec_hamilton_product
       (spec_hamilton_product q (Quaternion 0 (vx v) (vy v) (vz v)))
       (spec_conjugate q)"

section \<open>Basic facts\<close>

lemma new_Vector_eq [simp]: "new_Vector x y z = Vector x y z"
  by (simp add: new_Vector_def)

lemma Math_cos_nonzero: "Math_cos x \<noteq> 0"
  by (simp add: Math_cos_def)

lemma Quaternion_mag_eq_0_iff: "Quaternion_mag q = 0 \<longleftrightarrow> q = Quaternion 0 0 0 0"
  by (cases q) (simp add: Quaternion_mag_def add_nonneg_eq_0_iff)

lemma Quaternion_mag_sq:
  "Quaternion_mag q * Quaternion_mag q = qa q * qa q + qi q * qi q + qj q * qj q + qk q * qk q"
  by (simp add: Quaternion_mag_def)

lemma Quaternion_normalize_unit:
  "Quaternion_mag q = 1 \<Longrightarrow> Quaternion_normalize q = Inr q"
  by (cases q) (simp add: Quaternion_normalize_def Quaternion_div_def new_Quaternion_def)

lemma Quaternion_quaternion_multiply_spec:
  "Quaternion_quaternion_multiply p q = spec_hamilton_product p q"
  by (cases p; cases q) (simp add: Quaternion_quaternion_multiply_def new_Quaternion_def)

lemma Quaternion_conjugate_spec: "Quaternion_conjugate q = spec_conjugate q"
  by (cases q) (simp add: Quaternion_conjugate_def new_Quaternion_def)

lemma Vector_quaternion_rotate_Inr:
  "Quaternion_normalize q = Inr q' \<Longrightarrow>
     Vector_quaternion_rotate v q =
       Inr (Vector (qi (spec_sandwich q' v)) (qj (spec_sandwich q' v)) (qk (spec_sandwich q' v)))"
  by (simp add: Vector_quaternion_rotate_def Quaternion_q_mul_def spec_sandwich_def
      Quaternion_quaternion_multiply_spec Quaternion_conjugate_spec new_Quaternion_def Let_def)

lemma Quaternion_normalize_mag:
  assumes "Quaternion_mag q \<noteq> 0"
  shows "\<exists>q'. Quaternion_normalize q = Inr q' \<and> Quaternion_mag q' = 1"
proof -
  define m where "m = Quaternion_mag q"
  have sq: "qa q * qa q + qi q * qi q + qj q * qj q + qk q * qk q = m * m"
    by (simp add: m_def Quaternion_mag_sq)
  have "qa q * qa q / (m * m) + qi q * qi q / (m * m) + qj q * qj q / (m * m)
          + qk q * qk q / (m * m) =
        (qa q * qa q + qi q * qi q + qj q * qj q + qk q * qk q) / (m * m)"
    by (simp add: add_divide_distrib)
  also have "\<dots> = 1" using assms by (simp add: sq m_def)
  finally have "Quaternion_mag (Quaternion (qa q / m) (qi q / m) (qj q / m) (qk q / m)) = 1"
    by (simp add: Quaternion_mag_def)
  then show ?thesis
    using assms
    by (simp add: Quaternion_normalize_def Quaternion_div_def new_Quaternion_def m_def)
qed

lemma from_axis_rotation_returns:
  "\<exists>q. from_axis_rotation axis angle = Inr q \<and> Quaternion_mag q = 1"
proof -
  define n where "n = Vector_norm axis"
  define q0 where
    "q0 = Quaternion (Math_cos (angle / 2)) (vx n * sin (angle / 2)) (vy n * sin (angle / 2))
            (vz n * sin (angle / 2))"
  have "q0 \<noteq> Quaternion 0 0 0 0"
    by (simp add: q0_def Math_cos_nonzero)
  then have "Quaternion_mag q0 \<noteq> 0"
    by (simp add: Quaternion_mag_eq_0_iff)
  moreover have "from_axis_rotation axis angle = Quaternion_normalize q0"
    by (simp add: from_axis_rotation_def q0_def n_def Let_def new_Quaternion_def)
  ultimately show ?thesis
    using Quaternion_normalize_mag [of q0] by simp
qed

lemma Vector_rotate_axis_returns: "\<exists>r. Vector_rotate_axis u axis angle = Inr r"
proof -
  obtain q where q: "from_axis_rotation axis angle = Inr q" "Quaternion_mag q = 1"
    using from_axis_rotation_returns by blast
  then show ?thesis
    by (simp add: Vector_rotate_axis_def Vector_q_rotate_def
        Vector_quaternion_rotate_Inr [OF Quaternion_normalize_unit])
qed

lemma from_axis_rotation_zero_axis:
  "from_axis_rotation (Vector 0 0 0) angle = Inr (Quaternion (sgn (Math_cos (angle / 2))) 0 0 0)"
  using Math_cos_nonzero [of "angle / 2"]
  by (simp add: from_axis_rotation_def Vector_norm_def Vector_mag_def Quaternion_normalize_def
      Quaternion_div_def Quaternion_mag_def new_Quaternion_def sgn_real_def)

lemma Quaternion_mag_sgn:
  "c \<noteq> 0 \<Longrightarrow> Quaternion_mag (Quaternion (sgn c) 0 0 0) = 1"
  by (simp add: Quaternion_mag_def sgn_real_def)

lemma spec_sandwich_sgn:
  "c \<noteq> 0 \<Longrightarrow> spec_sandwich (Quaternion (sgn c) 0 0 0) u = Quaternion 0 (vx u) (vy u) (vz u)"
  by (simp add: spec_sandwich_def sgn_real_def)

section \<open>The Hamilton product\<close>

text \<open>
  C1. For all quaternions \<open>p = (a1, i1, j1, k1)\<close> and \<open>q = (a2, i2, j2, k2)\<close>,
  \<^verbatim>\<open>p.quaternion_multiply(q)\<close> is the Hamilton product with components
  \<open>a1 a2 - i1 i2 - j1 j2 - k1 k2\<close>, \<open>a1 i2 + i1 a2 + j1 k2 - k1 j2\<close>,
  \<open>a1 j2 - i1 k2 + j1 a2 + k1 i2\<close> and \<open>a1 k2 + i1 j2 - j1 i2 + k1 a2\<close>; in particular
  the product of \<open>(1, 0, 0, 0)\<close> and \<open>(0, 1, 0, 0)\<close> is \<open>(0, 1, 0, 0)\<close>. The last
  five equations check the formula against Hamilton's rules for the units: each of
  \<open>i\<close>, \<open>j\<close>, \<open>k\<close> squares to \<open>-1\<close>, and \<open>i j = k = - (j i)\<close>.
\<close>

theorem quaternion_multiply_hamilton:
  "Quaternion_quaternion_multiply (Quaternion a1 i1 j1 k1) (Quaternion a2 i2 j2 k2) =
     Quaternion (a1 * a2 - i1 * i2 - j1 * j2 - k1 * k2)
                (a1 * i2 + i1 * a2 + j1 * k2 - k1 * j2)
                (a1 * j2 - i1 * k2 + j1 * a2 + k1 * i2)
                (a1 * k2 + i1 * j2 - j1 * i2 + k1 * a2)
   \<and> Quaternion_quaternion_multiply (Quaternion 1 0 0 0) (Quaternion 0 1 0 0) =
       Quaternion 0 1 0 0
   \<and> Quaternion_quaternion_multiply (Quaternion 0 1 0 0) (Quaternion 0 1 0 0) =
       Quaternion (- 1) 0 0 0
   \<and> Quaternion_quaternion_multiply (Quaternion 0 0 1 0) (Quaternion 0 0 1 0) =
       Quaternion (- 1) 0 0 0
   \<and> Quaternion_quaternion_multiply (Quaternion 0 0 0 1) (Quaternion 0 0 0 1) =
       Quaternion (- 1) 0 0 0
   \<and> Quaternion_quaternion_multiply (Quaternion 0 1 0 0) (Quaternion 0 0 1 0) =
       Quaternion 0 0 0 1
   \<and> Quaternion_quaternion_multiply (Quaternion 0 0 1 0) (Quaternion 0 1 0 0) =
       Quaternion 0 0 0 (- 1)"
  by (simp add: Quaternion_quaternion_multiply_def new_Quaternion_def)

section \<open>Rotating a vector by a quaternion\<close>

text \<open>
  C2. For every vector \<open>v\<close> and every quaternion \<open>q\<close> of nonzero magnitude,
  \<^verbatim>\<open>v.quaternion_rotate(q)\<close> is the vector of the \<open>i, j, k\<close> parts of
  \<open>(q_n * p) * conjugate q_n\<close>, where \<open>q_n\<close> is \<^verbatim>\<open>q.normalize()\<close>, the quotient of \<open>q\<close> by
  the square root of the sum of the squares of its components, and \<open>p\<close> is the
  quaternion \<open>(0, x, y, z)\<close> of \<open>v\<close>. The product and the conjugate on the right of the
  equation are the ones the specification writes out, not the library's; \<open>q_n\<close> is
  multiplied on the left first, its conjugate on the right afterwards.
\<close>

theorem quaternion_rotate_sandwich:
  assumes "Quaternion_mag q \<noteq> 0"
  shows "(let m = sqrt (qa q * qa q + qi q * qi q + qj q * qj q + qk q * qk q);
              q_n = Quaternion (qa q / m) (qi q / m) (qj q / m) (qk q / m);
              r = spec_hamilton_product
                    (spec_hamilton_product q_n (Quaternion 0 (vx v) (vy v) (vz v)))
                    (spec_conjugate q_n)
          in Quaternion_normalize q = Inr q_n
             \<and> Vector_quaternion_rotate v q = Inr (Vector (qi r) (qj r) (qk r)))"
proof -
  define m where "m = sqrt (qa q * qa q + qi q * qi q + qj q * qj q + qk q * qk q)"
  define q_n where "q_n = Quaternion (qa q / m) (qi q / m) (qj q / m) (qk q / m)"
  have m: "Quaternion_mag q = m"
    by (simp add: m_def Quaternion_mag_def)
  have n: "Quaternion_normalize q = Inr q_n"
    using assms by (simp add: Quaternion_normalize_def Quaternion_div_def new_Quaternion_def
        m q_n_def)
  show ?thesis
    unfolding Let_def m_def [symmetric] q_n_def [symmetric]
    using n Vector_quaternion_rotate_Inr [OF n, of v] by (simp add: spec_sandwich_def)
qed

text \<open>
  The quaternion \<open>(3, 0, 0, 4)\<close> has magnitude 5 and turns about the \<open>z\<close> axis by the
  angle with cosine \<open>- 7 / 25\<close> and sine \<open>24 / 25\<close>. With the two factors exchanged the
  second component of the result would be \<open>- 24 / 25\<close>.
\<close>

theorem quaternion_rotate_sandwich_witness:
  "Quaternion_mag (Quaternion 3 0 0 4) \<noteq> 0
   \<and> Quaternion_normalize (Quaternion 3 0 0 4) = Inr (Quaternion (3 / 5) 0 0 (4 / 5))
   \<and> Vector_quaternion_rotate (Vector 1 0 0) (Quaternion 3 0 0 4) =
       Inr (Vector (- 7 / 25) (24 / 25) 0)"
proof -
  have s: "sqrt 25 = 5"
    by (rule real_sqrt_unique) simp_all
  have h: "Quaternion_mag (Quaternion 3 0 0 4) \<noteq> 0"
    by (simp add: Quaternion_mag_def s)
  from quaternion_rotate_sandwich [OF h, of "Vector 1 0 0"] h show ?thesis
    by (simp add: Let_def s)
qed

section \<open>Division by zero in the quaternion class\<close>



section \<open>A rotation about the zero vector\<close>

text \<open>
  C6, as the code has it. For every angle \<open>\<theta>\<close>, \<^verbatim>\<open>from_axis_rotation\<close> of the zero
  vector and \<open>\<theta>\<close> returns without an error, and what it returns is the quaternion
  \<open>(1, 0, 0, 0)\<close> or \<open>(- 1, 0, 0, 0)\<close>, with the sign of \<^verbatim>\<open>Math.cos(\<theta> / 2)\<close>: a quaternion
  of magnitude 1. \<^verbatim>\<open>Vector.norm\<close> maps the zero axis to the zero vector without an
  error, and the final \<^verbatim>\<open>normalize\<close> scales \<open>(cos (\<theta> / 2), 0, 0, 0)\<close> to magnitude 1.
\<close>

theorem from_axis_rotation_zero_axis_unit:
  "from_axis_rotation (Vector 0 0 0) \<theta> = Inr (Quaternion (sgn (Math_cos (\<theta> / 2))) 0 0 0)
   \<and> (sgn (Math_cos (\<theta> / 2)) = 1 \<or> sgn (Math_cos (\<theta> / 2)) = - 1)
   \<and> Quaternion_mag (Quaternion (sgn (Math_cos (\<theta> / 2))) 0 0 0) = 1"
  using Math_cos_nonzero [of "\<theta> / 2"]
  by (simp add: from_axis_rotation_zero_axis Quaternion_mag_sgn) (simp add: sgn_real_def)

text \<open>
  At the angle \<open>2 pi\<close> the cosine of the half angle is \<open>- 1\<close>, and the result is
  \<open>(- 1, 0, 0, 0)\<close>.
\<close>

theorem from_axis_rotation_zero_axis_unit_witness:
  "from_axis_rotation (Vector 0 0 0) (2 * pi) = Inr (Quaternion (- 1) 0 0 0)
   \<and> Quaternion_mag (Quaternion (- 1) 0 0 0) = 1"
  using from_axis_rotation_zero_axis_unit [of "2 * pi"]
  by (simp add: Math_cos_def)

text \<open>
  C6, as the specification has it, fails at the angle 0: the result for the zero axis
  is the identity quaternion, whose magnitude is 1.
\<close>

theorem from_axis_rotation_zero_axis_counterexample:
  "from_axis_rotation (Vector 0 0 0) 0 = Inr (Quaternion 1 0 0 0)
   \<and> Quaternion_mag (Quaternion 1 0 0 0) = 1"
  by (simp add: from_axis_rotation_zero_axis Quaternion_mag_def Math_cos_def)

text \<open>
  C7, as the code has it. For every vector \<open>v\<close> and every angle \<open>\<theta>\<close>, \<^verbatim>\<open>v.rotate_axis\<close>
  of the zero vector and \<open>\<theta>\<close> returns without an error, and what it returns is \<open>v\<close>
  itself: the quaternion of C6 is the identity rotation up to its sign, and its
  components and those of the result are numbers.
\<close>

theorem rotate_axis_zero_axis:
  "Vector_rotate_axis v (Vector 0 0 0) \<theta> = Inr v"
proof -
  define c where "c = Math_cos (\<theta> / 2)"
  have c: "c \<noteq> 0"
    by (simp add: c_def Math_cos_nonzero)
  have q: "from_axis_rotation (Vector 0 0 0) \<theta> = Inr (Quaternion (sgn c) 0 0 0)"
    by (simp add: from_axis_rotation_zero_axis c_def)
  have n: "Quaternion_normalize (Quaternion (sgn c) 0 0 0) = Inr (Quaternion (sgn c) 0 0 0)"
    by (rule Quaternion_normalize_unit) (rule Quaternion_mag_sgn [OF c])
  show ?thesis
    by (simp add: Vector_rotate_axis_def q Vector_q_rotate_def
        Vector_quaternion_rotate_Inr [OF n] spec_sandwich_sgn [OF c])
qed

text \<open>At the angle \<open>2 pi\<close>, where the quaternion is \<open>(- 1, 0, 0, 0)\<close>, and at the angle 1.\<close>

theorem rotate_axis_zero_axis_witness:
  "Vector_rotate_axis (Vector 1 2 3) (Vector 0 0 0) (2 * pi) = Inr (Vector 1 2 3)
   \<and> Vector_rotate_axis (Vector (- 4) 0 5) (Vector 0 0 0) 1 = Inr (Vector (- 4) 0 5)"
  using rotate_axis_zero_axis [of "Vector 1 2 3" "2 * pi"]
    rotate_axis_zero_axis [of "Vector (- 4) 0 5" 1]
  by simp

text \<open>
  C7, as the specification has it, fails for the vector \<open>(1, 2, 3)\<close> and the angle 0:
  the result is the vector \<open>(1, 2, 3)\<close>, whose components are numbers.
\<close>

theorem rotate_axis_zero_axis_counterexample:
  "Vector_rotate_axis (Vector 1 2 3) (Vector 0 0 0) 0 = Inr (Vector 1 2 3)"
  by (simp add: Vector_rotate_axis_def from_axis_rotation_zero_axis Vector_q_rotate_def
      Vector_quaternion_rotate_def Quaternion_normalize_def Quaternion_div_def
      Quaternion_mag_def Quaternion_q_mul_def Quaternion_quaternion_multiply_def
      Quaternion_conjugate_def new_Quaternion_def Math_cos_def)

section \<open>The projection into a plane\<close>

text \<open>
  C10. For every vector \<open>v\<close> and all vectors \<open>origin\<close>, \<open>normal\<close> and \<open>y_axis\<close>,
  \<^verbatim>\<open>v.project_2d(origin, normal, y_axis)\<close> returns a vector, and its \<open>z\<close> component is 0.
\<close>

theorem project_2d_z_zero:
  "\<exists>r. Vector_project_2d u origin normal y_axis = Inr r \<and> vz r = 0"
proof -
  obtain w where "Vector_rotate_axis y_axis normal (pi / 2) = Inr w"
    using Vector_rotate_axis_returns by blast
  then show ?thesis
    by (simp add: Vector_project_2d_def Let_def)
qed

end
